theory Spec2Isabelle
  imports Main "HOL-Library.Sublist" "HOL-Library.Word"
begin

section \<open>Model families (internal/registry/model\_families.go)\<close>

text \<open>
  A family member binds a provider type to the model id that provider uses.
\<close>

record FamilyMember =
  Provider :: string
  ModelID :: string

definition member :: "string \<Rightarrow> string \<Rightarrow> FamilyMember" where
  "member p m = \<lparr>Provider = p, ModelID = m\<rparr>"

text \<open>
  The table literal, entry by entry in the order of the source text. The keys of a Go map
  literal are pairwise different (the compiler rejects a duplicate constant key).
\<close>

definition ModelFamilies_table :: "(string \<times> FamilyMember list) list" where
  "ModelFamilies_table =
    [(''claude-sonnet-4-5'',
        [member ''kiro'' ''claude-sonnet-4-5'',
         member ''antigravity'' ''gemini-claude-sonnet-4-5'',
         member ''claude'' ''claude-sonnet-4-5-20250929'']),
     (''claude-sonnet-4-5-thinking'',
        [member ''antigravity'' ''gemini-claude-sonnet-4-5-thinking'',
         member ''claude'' ''claude-sonnet-4-5-thinking'']),
     (''claude-opus-4-5'',
        [member ''kiro'' ''claude-opus-4-5-20251101'',
         member ''claude'' ''claude-opus-4-5-20251101'']),
     (''claude-opus-4-5-thinking'',
        [member ''antigravity'' ''gemini-claude-opus-4-5-thinking'',
         member ''claude'' ''claude-opus-4-5-thinking'']),
     (''claude-sonnet-4'',
        [member ''kiro'' ''claude-sonnet-4-20250514'',
         member ''claude'' ''claude-sonnet-4-20250514'']),
     (''claude-3-7-sonnet'',
        [member ''kiro'' ''claude-3-7-sonnet-20250219'',
         member ''claude'' ''claude-3-7-sonnet-20250219'']),
     (''gemini-2.5-pro'',
        [member ''gemini-cli'' ''gemini-2.5-pro'',
         member ''antigravity'' ''gemini-2.5-pro'',
         member ''aistudio'' ''gemini-2.5-pro'',
         member ''gemini'' ''gemini-2.5-pro'']),
     (''gemini-2.5-flash'',
        [member ''gemini-cli'' ''gemini-2.5-flash'',
         member ''antigravity'' ''gemini-2.5-flash'',
         member ''aistudio'' ''gemini-2.5-flash'',
         member ''gemini'' ''gemini-2.5-flash'']),
     (''gemini-2.5-flash-lite'',
        [member ''gemini-cli'' ''gemini-2.5-flash-lite'',
         member ''antigravity'' ''gemini-2.5-flash-lite'',
         member ''aistudio'' ''gemini-2.5-flash-lite'',
         member ''gemini'' ''gemini-2.5-flash-lite'']),
     (''gemini-3-pro-preview'',
        [member ''gemini-cli'' ''gemini-3-pro-preview'',
         member ''antigravity'' ''gemini-3-pro-preview'',
         member ''aistudio'' ''gemini-3-pro-preview'',
         member ''gemini'' ''gemini-3-pro-preview'']),
     (''gpt-5.1-codex-max'',
        [member ''github-copilot'' ''gpt-5.1-codex-max'',
         member ''openai'' ''gpt-5.1-codex-max''])]"

text \<open>The map itself: \<open>ModelFamilies[k]\<close> with its \<open>ok\<close> flag is \<open>ModelFamilies k\<close>.\<close>

definition ModelFamilies :: "string \<rightharpoonup> FamilyMember list" where
  "ModelFamilies = map_of ModelFamilies_table"

text \<open>
  \<open>availableSet\<close> is a \<open>map[string]bool\<close> filled by the first loop; reading a key that
  was never stored yields \<open>false\<close>.
\<close>

definition availableSet :: "string list \<Rightarrow> string \<Rightarrow> bool" where
  "availableSet availableProviders = fold (\<lambda>p s. s(p := True)) availableProviders (\<lambda>_. False)"

text \<open>The second loop returns at the first member whose provider is in the set.\<close>

fun resolve_loop :: "(string \<Rightarrow> bool) \<Rightarrow> string \<Rightarrow> FamilyMember list \<Rightarrow> string \<times> string \<times> bool" where
  "resolve_loop av canonicalID [] = ('''', canonicalID, False)"
| "resolve_loop av canonicalID (m # ms) =
     (if av (Provider m) then (Provider m, ModelID m, True) else resolve_loop av canonicalID ms)"

definition ResolveModelFamily :: "string \<Rightarrow> string list \<Rightarrow> string \<times> string \<times> bool" where
  "ResolveModelFamily canonicalID availableProviders =
     (case ModelFamilies canonicalID of
        None \<Rightarrow> ('''', canonicalID, False)
      | Some family \<Rightarrow> resolve_loop (availableSet availableProviders) canonicalID family)"

definition IsCanonicalID :: "string \<Rightarrow> bool" where
  "IsCanonicalID modelID = (ModelFamilies modelID \<noteq> None)"

text \<open>
  \<open>GetCanonicalModelID\<close> ranges over the map. Go visits the entries of a map in an order
  it does not fix, so the order of the visit is an argument of the model: a list of the
  table's entries, each once, in any order.
\<close>

definition is_range_order :: "(string \<times> FamilyMember list) list \<Rightarrow> bool" where
  "is_range_order visit = (distinct visit \<and> set visit = set ModelFamilies_table)"

fun has_model :: "FamilyMember list \<Rightarrow> string \<Rightarrow> bool" where
  "has_model [] providerModelID = False"
| "has_model (m # ms) providerModelID =
     (if ModelID m = providerModelID then True else has_model ms providerModelID)"

fun GetCanonicalModelID :: "(string \<times> FamilyMember list) list \<Rightarrow> string \<Rightarrow> string" where
  "GetCanonicalModelID [] providerModelID = ''''"
| "GetCanonicalModelID ((canonical, members) # visit) providerModelID =
     (if has_model members providerModelID then canonical
      else GetCanonicalModelID visit providerModelID)"

section \<open>Content coalescer (internal/translator/ir/content\_coalescer.go)\<close>

subsection \<open>Slices and their backing arrays\<close>

text \<open>
  \<open>Emit\<close> keeps the slice it is given and later appends to it, so what \<open>Build\<close> returns
  depends on which slices share memory. A slice is therefore a header, the backing array
  it points into, where it starts there, its length and its capacity, and the memory maps
  a cell, an array and an index in it, to a value. \<open>next_array\<close> is the first array not yet
  allocated.
\<close>

record slice =
  s_arr :: nat
  s_off :: nat
  s_len :: nat
  s_cap :: nat





subsection \<open>The coalescer\<close>

record geminiContent =
  role :: string
  parts :: slice

record ContentCoalescer =
  contents :: "geminiContent list"
  lastRole :: string

text \<open>
  A coalescer as the pool hands it out: \<open>New\<close> makes one with no contents and the zero
  \<open>lastRole\<close>, and \<open>PutContentCoalescer\<close> resets both fields before it returns one.
\<close>

definition new_coalescer :: ContentCoalescer where
  "new_coalescer = \<lparr>contents = [], lastRole = ''''\<rparr>"

definition PutContentCoalescer :: "ContentCoalescer \<Rightarrow> ContentCoalescer" where
  "PutContentCoalescer c = c\<lparr>contents := take 0 (contents c), lastRole := ''''\<rparr>"







subsection \<open>The coalescing rule\<close>





subsection \<open>Slices that keep apart\<close>
















section \<open>SSE frames (package ir, memory pools)\<close>

text \<open>
  A byte slice is its bytes and its capacity. \<open>append\<close> writes in place while the capacity
  lasts and moves to a larger array otherwise; how much larger is the runtime's business,
  the model takes the length needed.
\<close>

record byte_slice =
  bytes :: string
  cap :: nat

definition make_bytes :: "nat \<Rightarrow> byte_slice" where
  "make_bytes capacity = \<lparr>bytes = [], cap = capacity\<rparr>"

definition append_bytes :: "byte_slice \<Rightarrow> string \<Rightarrow> byte_slice" where
  "append_bytes buf s =
     \<lparr>bytes = bytes buf @ s,
      cap = (if length (bytes buf) + length s \<le> cap buf then cap buf
             else length (bytes buf) + length s)\<rparr>"

text \<open>
  \<open>GetSSEChunkBuf\<close> takes a buffer from the pool and cuts it to length zero. Which buffer
  the pool hands out, with what bytes and what capacity, is not for the caller to say: the
  pooled buffer is an argument.
\<close>

definition GetSSEChunkBuf :: "byte_slice \<Rightarrow> byte_slice" where
  "GetSSEChunkBuf pooled = \<lparr>bytes = take 0 (bytes pooled), cap = cap pooled\<rparr>"

definition BuildSSEChunk :: "byte_slice \<Rightarrow> string \<Rightarrow> byte_slice" where
  "BuildSSEChunk pooled jsonData =
     (let size = 6 + length jsonData + 2;
          buf = GetSSEChunkBuf pooled;
          buf = (if cap buf < size then make_bytes size else buf);
          buf = append_bytes buf ''data: '';
          buf = append_bytes buf jsonData;
          buf = append_bytes buf [CHR 0x0A, CHR 0x0A]
      in buf)"

definition BuildSSEEvent :: "byte_slice \<Rightarrow> string \<Rightarrow> string \<Rightarrow> byte_slice" where
  "BuildSSEEvent pooled eventType jsonData =
     (let size = 7 + length eventType + 7 + length jsonData + 2;
          buf = GetSSEChunkBuf pooled;
          buf = (if cap buf < size then make_bytes size else buf);
          buf = append_bytes buf ''event: '';
          buf = append_bytes buf eventType;
          buf = append_bytes buf (CHR 0x0A # ''data: '');
          buf = append_bytes buf jsonData;
          buf = append_bytes buf [CHR 0x0A, CHR 0x0A]
      in buf)"

section \<open>Model quirks (internal/runtime/executor/model\_quirks.go)\<close>

text \<open>
  The functions of Go's \<open>strings\<close> package that the file calls, on byte strings.
  \<open>ToLower\<close> has two paths. A string of ASCII bytes only is lowered byte by byte: the
  letters \<open>A\<close> to \<open>Z\<close> move to \<open>a\<close> to \<open>z\<close>, every other byte stays. A string with a
  byte from 0x80 up is mapped rune by rune through \<open>unicode.ToLower\<close>; that path is the
  standard library's table and an argument here (\<open>unicode_lower\<close>).
\<close>

definition lower_byte :: "char \<Rightarrow> char" where
  "lower_byte c =
     (if of_char (CHR ''A'') \<le> (of_char c :: nat) \<and> (of_char c :: nat) \<le> of_char (CHR ''Z'')
      then char_of (of_char c + (32 :: nat)) else c)"

definition strings_ToLower :: "(string \<Rightarrow> string) \<Rightarrow> string \<Rightarrow> string" where
  "strings_ToLower unicode_lower s =
     (if list_all (\<lambda>c. (of_char c :: nat) < 128) s then map lower_byte s else unicode_lower s)"

definition strings_HasPrefix :: "string \<Rightarrow> string \<Rightarrow> bool" where
  "strings_HasPrefix s pre = (length s \<ge> length pre \<and> take (length pre) s = pre)"

definition strings_HasSuffix :: "string \<Rightarrow> string \<Rightarrow> bool" where
  "strings_HasSuffix s suf = (length s \<ge> length suf \<and> drop (length s - length suf) s = suf)"

fun strings_Contains :: "string \<Rightarrow> string \<Rightarrow> bool" where
  "strings_Contains [] substr = (substr = [])"
| "strings_Contains (c # cs) substr =
     (if strings_HasPrefix (c # cs) substr then True else strings_Contains cs substr)"

text \<open>
  The registry is not in this file: \<open>GetGlobalRegistry().GetModelInfo(id)\<close> is a lookup
  that answers \<open>nil\<close> for an id it does not know, here a map given as an argument. Of a
  model's record the file reads three fields.
\<close>

record 'th ModelInfo =
  Thinking :: "'th option"
  OutputTokenLimit :: int
  MaxCompletionTokens :: int

type_synonym 'th model_registry = "string \<rightharpoonup> 'th ModelInfo"

definition isClaudeModel :: "(string \<Rightarrow> string) \<Rightarrow> string \<Rightarrow> bool" where
  "isClaudeModel unicode_lower model =
     strings_Contains (strings_ToLower unicode_lower model) ''claude''"

definition isGeminiModel :: "(string \<Rightarrow> string) \<Rightarrow> string \<Rightarrow> bool" where
  "isGeminiModel unicode_lower model =
     (let lower = strings_ToLower unicode_lower model
      in strings_HasPrefix lower ''gemini'' \<or> strings_Contains lower ''gemini'')"

definition isThinkingModel :: "'th model_registry \<Rightarrow> string \<Rightarrow> bool" where
  "isThinkingModel GetModelInfo model =
     (case GetModelInfo model of None \<Rightarrow> False | Some info \<Rightarrow> Thinking info \<noteq> None)"

definition hasThinkingSuffix :: "string \<Rightarrow> bool" where
  "hasThinkingSuffix model = strings_HasSuffix model ''-thinking''"

definition getThinkingVariant :: "'th model_registry \<Rightarrow> string \<Rightarrow> string" where
  "getThinkingVariant GetModelInfo model =
     (if hasThinkingSuffix model then model
      else (let thinkingModel = model @ ''-thinking''
            in if GetModelInfo thinkingModel \<noteq> None then thinkingModel else ''''))"

definition getOutputTokenLimit :: "'th model_registry \<Rightarrow> string \<Rightarrow> int" where
  "getOutputTokenLimit GetModelInfo model =
     (case GetModelInfo model of
        None \<Rightarrow> 0
      | Some info \<Rightarrow>
          if OutputTokenLimit info > 0 then OutputTokenLimit info
          else MaxCompletionTokens info)"

section \<open>OAuth start (internal/api/handlers/management/oauth\_api.go)\<close>

record OAuthStartRequest =
  Provider_req :: string
  ProjectID_req :: string

record OAuthStartResponse =
  Status :: string
  AuthURL :: string
  State :: string
  ID :: string
  Error :: string
  CodeVerifier :: string
  CodeChallenge :: string
  FlowType :: string
  UserCode :: string
  VerificationURL :: string
  ExpiresIn :: int
  Interval :: int

text \<open>A response literal sets some fields; the others keep Go's zero values.\<close>

definition zero_response :: OAuthStartResponse where
  "zero_response =
     \<lparr>Status = '''', AuthURL = '''', State = '''', ID = '''', Error = '''', CodeVerifier = '''',
      CodeChallenge = '''', FlowType = '''', UserCode = '''', VerificationURL = '''',
      ExpiresIn = 0, Interval = 0\<rparr>"

definition error_response :: "string \<Rightarrow> OAuthStartResponse" where
  "error_response msg = zero_response\<lparr>Status := ''error'', Error := msg\<rparr>"

text \<open>
  The values the handler receives from other packages: the device-flow answers of the qwen
  and copilot clients and the PKCE codes, with the fields this file reads.
\<close>

record DeviceFlow =
  DeviceCode_qwen :: string
  UserCode_qwen :: string
  VerificationURI_qwen :: string
  VerificationURIComplete_qwen :: string
  ExpiresIn_qwen :: int
  Interval_qwen :: int
  CodeVerifier_qwen :: string

record DeviceCodeResponse =
  DeviceCode_copilot :: string
  UserCode_copilot :: string
  VerificationURI_copilot :: string
  ExpiresIn_copilot :: int
  Interval_copilot :: int

record PKCECodes =
  CodeVerifier_pkce :: string
  CodeChallenge_pkce :: string

datatype oauth_mode = ModeWebUI | ModeCLI

text \<open>
  What a call of the handler does besides answering, in the order it happens: the calls on
  the registry of pending flows, the background tasks it starts, the callback forwarder, and
  the release of a context it will not use.
\<close>

datatype effect =
    Registry_Create string string oauth_mode
  | Go_pollQwenToken DeviceFlow string
  | Go_pollCopilotToken DeviceCodeResponse string
  | StartCallbackForwarder int string string
  | Cancel_context

text \<open>
  Everything the handler asks of code outside this file, as the answers it gets: an
  \<open>error\<close> is its message (\<open>Inl\<close>), a value is \<open>Inr\<close>. The random state and the
  clock are inputs like the others.
\<close>

record environment =
  GenerateRandomState :: "string + string"
  claude_GeneratePKCECodes :: "string + PKCECodes"
  claude_GenerateAuthURL :: "string \<Rightarrow> PKCECodes \<Rightarrow> string + string"
  codex_GeneratePKCECodes :: "string + PKCECodes"
  codex_GenerateAuthURL :: "string \<Rightarrow> PKCECodes \<Rightarrow> string + string"
  oauth2_AuthCodeURL :: "string \<Rightarrow> string \<Rightarrow> string"
  qwen_InitiateDeviceFlow :: "string + DeviceFlow"
  time_Now_UnixNano :: "64 word"
  copilot_StartDeviceFlow :: "string + DeviceCodeResponse"
  managementCallbackURL :: "string \<Rightarrow> string option"
  GetCallbackPort :: "string \<Rightarrow> int"

text \<open>\<open>%d\<close> of \<open>fmt.Sprintf\<close>: decimal digits, a minus sign in front of a negative number.\<close>

definition digit_char :: "nat \<Rightarrow> char" where
  "digit_char d = ''0123456789'' ! d"

fun dec_nat :: "nat \<Rightarrow> string" where
  "dec_nat n =
     (if n < 10 then [digit_char n] else dec_nat (n div 10) @ [digit_char (n mod 10)])"

definition dec_int :: "int \<Rightarrow> string" where
  "dec_int i = (if i < 0 then ''-'' @ dec_nat (nat (- i)) else dec_nat (nat i))"

type_synonym http_response = "nat \<times> OAuthStartResponse"

definition StatusOK :: nat where "StatusOK = 200"
definition StatusBadRequest :: nat where "StatusBadRequest = 400"
definition StatusInternalServerError :: nat where "StatusInternalServerError = 500"

definition startQwenDeviceFlow :: "environment \<Rightarrow> http_response \<times> effect list" where
  "startQwenDeviceFlow env =
     (case qwen_InitiateDeviceFlow env of
        Inl err \<Rightarrow>
          ((StatusInternalServerError,
            error_response (''Failed to initiate device flow: '' @ err)),
           [Cancel_context])
      | Inr deviceFlow \<Rightarrow>
          (let state = ''qwen-'' @ dec_int (sint (time_Now_UnixNano env))
           in ((StatusOK,
                zero_response
                  \<lparr>Status := ''ok'',
                   FlowType := ''device'',
                   State := state,
                   ID := state,
                   UserCode := UserCode_qwen deviceFlow,
                   AuthURL := VerificationURIComplete_qwen deviceFlow,
                   VerificationURL := VerificationURI_qwen deviceFlow,
                   ExpiresIn := ExpiresIn_qwen deviceFlow,
                   Interval := Interval_qwen deviceFlow\<rparr>),
               [Registry_Create state ''qwen'' ModeWebUI,
                Go_pollQwenToken deviceFlow state])))"

text \<open>
  \<open>deviceCode.DeviceCode[:8]\<close> panics on a device code of fewer than eight bytes; the
  panic is the \<open>Inl\<close> result, and nothing has been registered when it happens.
\<close>

definition startCopilotDeviceFlow :: "environment \<Rightarrow> string + http_response \<times> effect list" where
  "startCopilotDeviceFlow env =
     (case copilot_StartDeviceFlow env of
        Inl err \<Rightarrow>
          Inr ((StatusInternalServerError,
                error_response (''Failed to start device flow: '' @ err)),
               [Cancel_context])
      | Inr deviceCode \<Rightarrow>
          if length (DeviceCode_copilot deviceCode) < 8
          then Inl ''runtime error: slice bounds out of range''
          else
            (let state = ''copilot-'' @ take 8 (DeviceCode_copilot deviceCode)
             in Inr ((StatusOK,
                      zero_response
                        \<lparr>Status := ''ok'',
                         FlowType := ''device'',
                         State := state,
                         ID := state,
                         UserCode := UserCode_copilot deviceCode,
                         AuthURL := VerificationURI_copilot deviceCode,
                         VerificationURL := VerificationURI_copilot deviceCode,
                         ExpiresIn := ExpiresIn_copilot deviceCode,
                         Interval := Interval_copilot deviceCode\<rparr>),
                     [Registry_Create state ''copilot'' ModeWebUI,
                      Go_pollCopilotToken deviceCode state])))"

text \<open>The four builders answer the URL, the state and the PKCE code verifier, or an error.\<close>

definition buildClaudeAuthURL :: "environment \<Rightarrow> string \<Rightarrow> string + string \<times> string \<times> string" where
  "buildClaudeAuthURL env state =
     (case claude_GeneratePKCECodes env of
        Inl err \<Rightarrow> Inl (''failed to generate PKCE codes: '' @ err)
      | Inr pkceCodes \<Rightarrow>
          (case claude_GenerateAuthURL env state pkceCodes of
             Inl err \<Rightarrow> Inl (''failed to generate auth URL: '' @ err)
           | Inr authURL \<Rightarrow> Inr (authURL, state, CodeVerifier_pkce pkceCodes)))"

definition buildCodexAuthURL :: "environment \<Rightarrow> string \<Rightarrow> string + string \<times> string \<times> string" where
  "buildCodexAuthURL env state =
     (case codex_GeneratePKCECodes env of
        Inl err \<Rightarrow> Inl (''failed to generate PKCE codes: '' @ err)
      | Inr pkceCodes \<Rightarrow>
          (case codex_GenerateAuthURL env state pkceCodes of
             Inl err \<Rightarrow> Inl (''failed to generate auth URL: '' @ err)
           | Inr authURL \<Rightarrow> Inr (authURL, state, CodeVerifier_pkce pkceCodes)))"

definition buildGeminiAuthURL :: "environment \<Rightarrow> string \<Rightarrow> string + string \<times> string \<times> string" where
  "buildGeminiAuthURL env state =
     (let redirectURI =
            ''http://localhost:'' @ dec_int (GetCallbackPort env ''gemini'') @ ''/oauth2callback'';
          authURL = oauth2_AuthCodeURL env redirectURI state
      in Inr (authURL, state, ''''))"

definition buildAntigravityAuthURL :: "environment \<Rightarrow> string \<Rightarrow> string + string \<times> string \<times> string" where
  "buildAntigravityAuthURL env state =
     (let redirectURI =
            ''http://localhost:'' @ dec_int (GetCallbackPort env ''antigravity'') @ ''/oauth-callback'';
          authURL = oauth2_AuthCodeURL env redirectURI state
      in Inr (authURL, state, ''''))"

definition buildProviderAuthURL ::
  "environment \<Rightarrow> string \<Rightarrow> string \<Rightarrow> string + string \<times> string \<times> string" where
  "buildProviderAuthURL env provider projectID =
     (case GenerateRandomState env of
        Inl err \<Rightarrow> Inl (''failed to generate state: '' @ err)
      | Inr state \<Rightarrow>
          if provider = ''claude'' \<or> provider = ''anthropic'' then buildClaudeAuthURL env state
          else if provider = ''codex'' then buildCodexAuthURL env state
          else if provider = ''gemini'' \<or> provider = ''gemini-cli'' then buildGeminiAuthURL env state
          else if provider = ''antigravity'' then buildAntigravityAuthURL env state
          else Inl (''unsupported OAuth provider: '' @ provider
                    @ ''. Use device flow for qwen/copilot, or cookie auth for iflow''))"

definition normalize_provider :: "string \<Rightarrow> string" where
  "normalize_provider provider =
     (if provider = ''claude'' \<or> provider = ''anthropic'' then ''claude''
      else if provider = ''gemini'' \<or> provider = ''gemini-cli'' then ''gemini''
      else if provider = ''copilot'' \<or> provider = ''github-copilot'' then ''copilot''
      else provider)"

definition iflow_message :: string where
  "iflow_message =
     ''iFlow uses cookie-based auth. Use POST /v0/management/iflow-auth-url with {cookie: ''
     @ [CHR 0x22] @ ''...'' @ [CHR 0x22] @ ''} instead''"

text \<open>
  The handler. Its argument is what \<open>ShouldBindJSON\<close> made of the body: \<open>None\<close> when
  binding failed, the request otherwise.
\<close>

definition OAuthStart ::
  "environment \<Rightarrow> OAuthStartRequest option \<Rightarrow> string + http_response \<times> effect list" where
  "OAuthStart env bound =
     (case bound of
        None \<Rightarrow>
          Inr ((StatusBadRequest, error_response ''Invalid request body: provider is required''), [])
      | Some req \<Rightarrow>
          (let provider = normalize_provider (Provider_req req)
           in if provider = ''qwen'' then Inr (startQwenDeviceFlow env)
              else if provider = ''copilot'' then startCopilotDeviceFlow env
              else if provider = ''iflow'' then
                Inr ((StatusBadRequest, error_response iflow_message), [])
              else
                (case buildProviderAuthURL env provider (ProjectID_req req) of
                   Inl err \<Rightarrow> Inr ((StatusBadRequest, error_response err), [])
                 | Inr (authURL, state, codeVerifier) \<Rightarrow>
                     Inr ((StatusOK,
                           zero_response
                             \<lparr>Status := ''ok'',
                              FlowType := ''oauth'',
                              AuthURL := authURL,
                              State := state,
                              ID := state,
                              CodeVerifier := codeVerifier\<rparr>),
                          Registry_Create state provider ModeWebUI
                          # (case managementCallbackURL env (''/'' @ provider @ ''/callback'') of
                               None \<Rightarrow> []
                             | Some targetURL \<Rightarrow>
                                 (let port = GetCallbackPort env provider
                                  in if port > 0 then [StartCallbackForwarder port provider targetURL]
                                     else []))))))"

text \<open>The flows a call registers: the states of its \<open>Create\<close> calls.\<close>

fun registered_states :: "effect list \<Rightarrow> string list" where
  "registered_states [] = []"
| "registered_states (Registry_Create state provider mode # es) = state # registered_states es"
| "registered_states (e # es) = registered_states es"

text \<open>
  The reading of the state rule that covers every flow: each state a call registers is the
  value the random-state generator returned in that call.
\<close>

definition keyed_by_random_state :: "environment \<Rightarrow> OAuthStartRequest option \<Rightarrow> bool" where
  "keyed_by_random_state env bound =
     (case OAuthStart env bound of
        Inl panic \<Rightarrow> True
      | Inr (response, effects) \<Rightarrow>
          list_all (\<lambda>state. GenerateRandomState env = Inr state) (registered_states effects))"

text \<open>An environment in which every outside call succeeds, for running the handler.\<close>

definition sample_env :: environment where
  "sample_env =
     \<lparr>GenerateRandomState = Inr ''9f86d081884c7d659a2feaa0c55ad015'',
      claude_GeneratePKCECodes =
        Inr \<lparr>CodeVerifier_pkce = ''verifier-1'', CodeChallenge_pkce = ''challenge-1''\<rparr>,
      claude_GenerateAuthURL = (\<lambda>state pkce. Inr (''https://claude.example/authorize?state='' @ state)),
      codex_GeneratePKCECodes =
        Inr \<lparr>CodeVerifier_pkce = ''verifier-2'', CodeChallenge_pkce = ''challenge-2''\<rparr>,
      codex_GenerateAuthURL = (\<lambda>state pkce. Inr (''https://codex.example/authorize?state='' @ state)),
      oauth2_AuthCodeURL = (\<lambda>redirectURI state. ''https://google.example/auth?state='' @ state),
      qwen_InitiateDeviceFlow =
        Inr \<lparr>DeviceCode_qwen = ''qwen-device-code'',
             UserCode_qwen = ''ABCD-EFGH'',
             VerificationURI_qwen = ''https://qwen.example/device'',
             VerificationURIComplete_qwen = ''https://qwen.example/device?user_code=ABCD-EFGH'',
             ExpiresIn_qwen = 600,
             Interval_qwen = 5,
             CodeVerifier_qwen = ''verifier-3''\<rparr>,
      time_Now_UnixNano = 1730000000000000000,
      copilot_StartDeviceFlow =
        Inr \<lparr>DeviceCode_copilot = ''3584d83530557fdd1f46af8289938c8ef79f9dc5'',
             UserCode_copilot = ''WDJB-MJHT'',
             VerificationURI_copilot = ''https://github.example/login/device'',
             ExpiresIn_copilot = 900,
             Interval_copilot = 5\<rparr>,
      managementCallbackURL = (\<lambda>path. Some (''http://127.0.0.1:8317'' @ path)),
      GetCallbackPort = (\<lambda>provider. if provider = ''claude'' then 54545 else 0)\<rparr>"

definition start_request :: "string \<Rightarrow> OAuthStartRequest option" where
  "start_request provider = Some \<lparr>Provider_req = provider, ProjectID_req = ''''\<rparr>"

section \<open>Resolution\<close>

lemma fold_set_true:
  "fold (\<lambda>p s. s(p := True)) ps s0 x = (s0 x \<or> x \<in> set ps)"
  by (induction ps arbitrary: s0) auto

lemma availableSet_iff: "availableSet ps x = (x \<in> set ps)"
  by (simp add: availableSet_def fold_set_true)

lemma resolve_loop_find:
  "resolve_loop av c fam =
     (case find (\<lambda>m. av (Provider m)) fam of
        None \<Rightarrow> ('''', c, False)
      | Some m \<Rightarrow> (Provider m, ModelID m, True))"
  by (induction fam) auto

text \<open>
  C1. For a family key, the answer is the first member, in declaration order, whose provider
  occurs in the list of available providers, with \<open>found = True\<close>; for an id that is no
  family key, and for a family none of whose providers is available, the answer is the empty
  provider, the id itself and \<open>found = False\<close>.
\<close>

theorem ResolveModelFamily_first_available:
  "ResolveModelFamily C P =
     (case ModelFamilies C of
        None \<Rightarrow> ('''', C, False)
      | Some family \<Rightarrow>
          (case find (\<lambda>m. Provider m \<in> set P) family of
             None \<Rightarrow> ('''', C, False)
           | Some m \<Rightarrow> (Provider m, ModelID m, True)))"
proof (cases "ModelFamilies C")
  case None
  then show ?thesis by (simp add: ResolveModelFamily_def)
next
  case (Some family)
  then show ?thesis
    by (simp add: ResolveModelFamily_def resolve_loop_find availableSet_iff)
qed

theorem ResolveModelFamily_first_available_witness:
  "ResolveModelFamily ''gemini-2.5-flash'' [''aistudio'', ''claude'']
     = (''aistudio'', ''gemini-2.5-flash'', True)
   \<and> ResolveModelFamily ''claude-sonnet-4-5'' [''openai'', ''qwen'']
     = ('''', ''claude-sonnet-4-5'', False)
   \<and> ResolveModelFamily ''my-own-model'' [''kiro''] = ('''', ''my-own-model'', False)"
  using ResolveModelFamily_first_available [of "''gemini-2.5-flash''" "[''aistudio'', ''claude'']"]
    ResolveModelFamily_first_available [of "''claude-sonnet-4-5''" "[''openai'', ''qwen'']"]
    ResolveModelFamily_first_available [of "''my-own-model''" "[''kiro'']"]
  by (simp add: ModelFamilies_def ModelFamilies_table_def member_def)

section \<open>Reverse lookup\<close>

lemma has_model_iff: "has_model ms m \<longleftrightarrow> m \<in> ModelID ` set ms"
  by (induction ms) auto

lemma GetCanonicalModelID_miss:
  "\<not> list_ex (\<lambda>(c, ms). has_model ms m) visit \<Longrightarrow> GetCanonicalModelID visit m = ''''"
  by (induction visit) auto

lemma GetCanonicalModelID_hit:
  "list_ex (\<lambda>(c, ms). has_model ms m) visit \<Longrightarrow>
     \<exists>ms. (GetCanonicalModelID visit m, ms) \<in> set visit \<and> has_model ms m"
  by (induction visit) auto

lemma table_keys_distinct: "distinct (map fst ModelFamilies_table)"
  by (simp add: ModelFamilies_table_def)

lemma table_keys_nonempty: "(c, ms) \<in> set ModelFamilies_table \<Longrightarrow> c \<noteq> ''''"
  by (auto simp add: ModelFamilies_table_def)

lemma ModelFamilies_Some_iff: "ModelFamilies c = Some ms \<longleftrightarrow> (c, ms) \<in> set ModelFamilies_table"
  by (simp add: ModelFamilies_def table_keys_distinct)

text \<open>In the order of the source text, every member's model id leads back to its own family.\<close>

lemma declared_order_round_trip:
  "list_all (\<lambda>(c, ms). list_all (\<lambda>mem. GetCanonicalModelID ModelFamilies_table (ModelID mem) = c) ms)
     ModelFamilies_table"
  by (simp add: ModelFamilies_table_def member_def)

text \<open>Hence no model id occurs in two families of the table.\<close>

lemma families_disjoint:
  assumes "(c1, ms1) \<in> set ModelFamilies_table" "has_model ms1 m"
    and "(c2, ms2) \<in> set ModelFamilies_table" "has_model ms2 m"
  shows "c1 = c2"
proof -
  have rt: "\<And>c ms mem. (c, ms) \<in> set ModelFamilies_table \<Longrightarrow> mem \<in> set ms \<Longrightarrow>
              GetCanonicalModelID ModelFamilies_table (ModelID mem) = c"
    using declared_order_round_trip by (auto simp add: list_all_iff)
  from assms(2) obtain mem1 where "mem1 \<in> set ms1" "ModelID mem1 = m"
    by (auto simp add: has_model_iff)
  with rt [OF assms(1)] have "GetCanonicalModelID ModelFamilies_table m = c1" by blast
  moreover from assms(4) obtain mem2 where "mem2 \<in> set ms2" "ModelID mem2 = m"
    by (auto simp add: has_model_iff)
  with rt [OF assms(3)] have "GetCanonicalModelID ModelFamilies_table m = c2" by blast
  ultimately show ?thesis by simp
qed

text \<open>
  C4. Whatever the order in which the map is ranged over: the result is the empty string
  exactly when no family has a member with the model id; a result that is not empty is a key
  of the table whose member list contains the model id; and the model id of every member
  of every family leads back to the key of that family.
\<close>

theorem GetCanonicalModelID_round_trip:
  assumes "is_range_order visit"
  shows "(GetCanonicalModelID visit m = '''' \<longleftrightarrow>
            \<not> (\<exists>c ms. ModelFamilies c = Some ms \<and> m \<in> ModelID ` set ms))
       \<and> (GetCanonicalModelID visit m = '''' \<or>
            (\<exists>ms. ModelFamilies (GetCanonicalModelID visit m) = Some ms \<and> m \<in> ModelID ` set ms))
       \<and> (\<forall>C family mem. ModelFamilies C = Some family \<and> mem \<in> set family
            \<longrightarrow> GetCanonicalModelID visit (ModelID mem) = C)"
proof -
  from assms have sv: "set visit = set ModelFamilies_table"
    by (simp add: is_range_order_def)
  have ex_iff: "\<And>x. list_ex (\<lambda>(c, ms). has_model ms x) visit \<longleftrightarrow>
                  (\<exists>c ms. ModelFamilies c = Some ms \<and> x \<in> ModelID ` set ms)"
    by (auto simp add: list_ex_iff sv ModelFamilies_Some_iff has_model_iff)
  have hit: "\<And>x. list_ex (\<lambda>(c, ms). has_model ms x) visit \<Longrightarrow>
               GetCanonicalModelID visit x \<noteq> ''''
               \<and> (\<exists>ms. ModelFamilies (GetCanonicalModelID visit x) = Some ms \<and> has_model ms x)"
  proof -
    fix x
    assume "list_ex (\<lambda>(c, ms). has_model ms x) visit"
    then obtain ms where ms: "(GetCanonicalModelID visit x, ms) \<in> set visit" "has_model ms x"
      using GetCanonicalModelID_hit by blast
    then have "(GetCanonicalModelID visit x, ms) \<in> set ModelFamilies_table"
      by (simp add: sv)
    with ms(2) show "GetCanonicalModelID visit x \<noteq> ''''
               \<and> (\<exists>ms. ModelFamilies (GetCanonicalModelID visit x) = Some ms \<and> has_model ms x)"
      using table_keys_nonempty ModelFamilies_Some_iff by blast
  qed
  have first: "GetCanonicalModelID visit m = '''' \<longleftrightarrow>
                 \<not> (\<exists>c ms. ModelFamilies c = Some ms \<and> m \<in> ModelID ` set ms)"
    using hit [of m] GetCanonicalModelID_miss [of m visit] ex_iff [of m] by blast
  have second: "GetCanonicalModelID visit m = '''' \<or>
            (\<exists>ms. ModelFamilies (GetCanonicalModelID visit m) = Some ms \<and> m \<in> ModelID ` set ms)"
    using hit [of m] GetCanonicalModelID_miss [of m visit] by (auto simp add: has_model_iff)
  have third: "GetCanonicalModelID visit (ModelID mem) = C"
    if fam: "ModelFamilies C = Some family" and mem: "mem \<in> set family" for C family mem
  proof -
    have hm: "has_model family (ModelID mem)"
      using mem by (auto simp add: has_model_iff)
    with fam have "list_ex (\<lambda>(c, ms). has_model ms (ModelID mem)) visit"
      using ex_iff [of "ModelID mem"] by (auto simp add: has_model_iff)
    from hit [OF this] obtain ms where
      "ModelFamilies (GetCanonicalModelID visit (ModelID mem)) = Some ms" "has_model ms (ModelID mem)"
      by blast
    with fam hm show ?thesis
      using families_disjoint ModelFamilies_Some_iff by blast
  qed
  from first second third show ?thesis by blast
qed

theorem GetCanonicalModelID_round_trip_witness:
  "is_range_order (rev ModelFamilies_table)
   \<and> GetCanonicalModelID (rev ModelFamilies_table) ''gemini-claude-sonnet-4-5'' = ''claude-sonnet-4-5''
   \<and> GetCanonicalModelID (rev ModelFamilies_table) ''claude-opus-4-5-20251101'' = ''claude-opus-4-5''
   \<and> GetCanonicalModelID (rev ModelFamilies_table) ''gpt-4o'' = ''''"
proof -
  have ord: "is_range_order (rev ModelFamilies_table)"
    using table_keys_distinct by (simp add: is_range_order_def distinct_map)
  have fam1: "ModelFamilies ''claude-sonnet-4-5'' =
      Some [member ''kiro'' ''claude-sonnet-4-5'',
            member ''antigravity'' ''gemini-claude-sonnet-4-5'',
            member ''claude'' ''claude-sonnet-4-5-20250929'']"
    by (simp add: ModelFamilies_def ModelFamilies_table_def)
  have fam2: "ModelFamilies ''claude-opus-4-5'' =
      Some [member ''kiro'' ''claude-opus-4-5-20251101'',
            member ''claude'' ''claude-opus-4-5-20251101'']"
    by (simp add: ModelFamilies_def ModelFamilies_table_def)
  have none: "\<not> (\<exists>c ms. ModelFamilies c = Some ms \<and> ''gpt-4o'' \<in> ModelID ` set ms)"
    by (auto simp add: ModelFamilies_Some_iff ModelFamilies_table_def member_def)
  have rt: "\<And>C family mem. ModelFamilies C = Some family \<Longrightarrow> mem \<in> set family \<Longrightarrow>
              GetCanonicalModelID (rev ModelFamilies_table) (ModelID mem) = C"
    using GetCanonicalModelID_round_trip [OF ord, of "''gpt-4o''"] by blast
  have a: "GetCanonicalModelID (rev ModelFamilies_table)
             (ModelID (member ''antigravity'' ''gemini-claude-sonnet-4-5'')) = ''claude-sonnet-4-5''"
    by (rule rt [OF fam1]) simp
  have b: "GetCanonicalModelID (rev ModelFamilies_table)
             (ModelID (member ''kiro'' ''claude-opus-4-5-20251101'')) = ''claude-opus-4-5''"
    by (rule rt [OF fam2]) simp
  from GetCanonicalModelID_round_trip [OF ord, of "''gpt-4o''"] none
  have c: "GetCanonicalModelID (rev ModelFamilies_table) ''gpt-4o'' = ''''"
    by simp
  from ord a b c show ?thesis by (simp add: member_def)
qed

section \<open>Coalescing\<close>

subsection \<open>Reading and appending\<close>









subsection \<open>The two branches of Emit\<close>






lemma PutContentCoalescer_fresh: "PutContentCoalescer c = new_coalescer"
  by (simp add: PutContentCoalescer_def new_coalescer_def)



subsection \<open>Slices that keep apart\<close>

















subsection \<open>The rule's own reading\<close>








subsection \<open>Runs\<close>










section \<open>SSE frames\<close>

lemma append_bytes_bytes: "bytes (append_bytes buf s) = bytes buf @ s"
  by (simp add: append_bytes_def)

lemma chunk_start_empty:
  "bytes (if cap (GetSSEChunkBuf pooled) < n then make_bytes n
          else GetSSEChunkBuf pooled) = []"
  by (simp add: GetSSEChunkBuf_def make_bytes_def)

text \<open>
  The size computed up front is the length of the frame, so the capacity check is the only
  place where a buffer is replaced.
\<close>

lemma BuildSSEChunk_cap:
  "cap (BuildSSEChunk pooled jsonData) = max (cap pooled) (length jsonData + 8)
   \<and> length (bytes (BuildSSEChunk pooled jsonData)) = length jsonData + 8"
  by (simp add: BuildSSEChunk_def Let_def append_bytes_def GetSSEChunkBuf_def make_bytes_def)

text \<open>
  C3. The data frame is the bytes \<open>data: \<close>, the payload and two line feeds; the event
  frame is \<open>event: \<close>, the event type, a line feed, \<open>data: \<close>, the payload and two line
  feeds. Neither depends on the buffer the pool handed out.
\<close>

theorem BuildSSE_frames:
  "bytes (BuildSSEChunk pooled jsonData) = ''data: '' @ jsonData @ [CHR 0x0A, CHR 0x0A]
   \<and> bytes (BuildSSEEvent pooled eventType jsonData)
       = ''event: '' @ eventType @ [CHR 0x0A] @ ''data: '' @ jsonData @ [CHR 0x0A, CHR 0x0A]"
proof -
  have "bytes (BuildSSEChunk pooled jsonData) = ''data: '' @ jsonData @ [CHR 0x0A, CHR 0x0A]"
    unfolding BuildSSEChunk_def Let_def append_bytes_bytes chunk_start_empty by simp
  moreover have "bytes (BuildSSEEvent pooled eventType jsonData)
       = ''event: '' @ eventType @ [CHR 0x0A] @ ''data: '' @ jsonData @ [CHR 0x0A, CHR 0x0A]"
    unfolding BuildSSEEvent_def Let_def append_bytes_bytes chunk_start_empty by simp
  ultimately show ?thesis by simp
qed

theorem BuildSSE_frames_witness:
  "bytes (BuildSSEChunk \<lparr>bytes = ''data: stale'', cap = 512\<rparr> ''[DONE]'') = ''data: [DONE]'' @ [CHR 0x0A, CHR 0x0A]
   \<and> bytes (BuildSSEEvent (make_bytes 0) ''message_start'' ''{}'')
       = ''event: message_start'' @ [CHR 0x0A] @ ''data: {}'' @ [CHR 0x0A, CHR 0x0A]"
  using BuildSSE_frames [where pooled = "\<lparr>bytes = ''data: stale'', cap = 512\<rparr>" and jsonData = "''[DONE]''"]
    BuildSSE_frames [where pooled = "make_bytes 0" and jsonData = "''{}''" and eventType = "''message_start''"]
  by simp

section \<open>Model quirks\<close>

lemma strings_HasPrefix_iff: "strings_HasPrefix s pre \<longleftrightarrow> prefix pre s"
proof
  assume "strings_HasPrefix s pre"
  then have "take (length pre) s = pre" by (simp add: strings_HasPrefix_def)
  then show "prefix pre s" by (metis take_is_prefix)
next
  assume "prefix pre s"
  then obtain t where "s = pre @ t" by (auto simp add: prefix_def)
  then show "strings_HasPrefix s pre" by (simp add: strings_HasPrefix_def)
qed

lemma strings_HasSuffix_iff: "strings_HasSuffix s suf \<longleftrightarrow> suffix suf s"
proof
  assume "strings_HasSuffix s suf"
  then have "drop (length s - length suf) s = suf" by (simp add: strings_HasSuffix_def)
  then show "suffix suf s" by (metis suffix_drop)
next
  assume "suffix suf s"
  then obtain t where "s = t @ suf" by (auto simp add: suffix_def)
  then show "strings_HasSuffix s suf" by (simp add: strings_HasSuffix_def)
qed

lemma strings_Contains_iff: "strings_Contains s substr \<longleftrightarrow> sublist substr s"
  by (induction s) (auto simp add: strings_HasPrefix_iff sublist_Cons_right)

text \<open>
  C5. A model id that ends with \<open>-thinking\<close> is its own thinking variant; any other id
  gets the suffix appended when the registry knows the longer id, and the empty string when
  it does not.
\<close>

theorem getThinkingVariant_cases:
  "(suffix ''-thinking'' m \<longrightarrow> getThinkingVariant GetModelInfo m = m)
   \<and> (\<not> suffix ''-thinking'' m \<and> GetModelInfo (m @ ''-thinking'') \<noteq> None
        \<longrightarrow> getThinkingVariant GetModelInfo m = m @ ''-thinking'')
   \<and> (\<not> suffix ''-thinking'' m \<and> GetModelInfo (m @ ''-thinking'') = None
        \<longrightarrow> getThinkingVariant GetModelInfo m = '''')"
  by (simp add: getThinkingVariant_def hasThinkingSuffix_def strings_HasSuffix_iff Let_def)

theorem getThinkingVariant_cases_witness:
  "getThinkingVariant
     [''claude-opus-4-5-thinking'' \<mapsto> \<lparr>Thinking = Some (), OutputTokenLimit = 0, MaxCompletionTokens = 0\<rparr>]
     ''claude-opus-4-5-thinking'' = ''claude-opus-4-5-thinking''
   \<and> getThinkingVariant
     [''claude-opus-4-5-thinking'' \<mapsto> \<lparr>Thinking = Some (), OutputTokenLimit = 0, MaxCompletionTokens = 0\<rparr>]
     ''claude-opus-4-5'' = ''claude-opus-4-5-thinking''
   \<and> getThinkingVariant
     [''claude-opus-4-5-thinking'' \<mapsto> \<lparr>Thinking = Some (), OutputTokenLimit = 0, MaxCompletionTokens = 0\<rparr>]
     ''gpt-5.1-codex-max'' = ''''"
proof -
  let ?reg = "[''claude-opus-4-5-thinking'' \<mapsto>
                 \<lparr>Thinking = Some (), OutputTokenLimit = 0, MaxCompletionTokens = 0\<rparr>]"
  have s1: "suffix ''-thinking'' ''claude-opus-4-5-thinking''"
    by (simp add: suffix_def)
  have s2: "\<not> suffix ''-thinking'' ''claude-opus-4-5''"
    by (simp add: strings_HasSuffix_iff [symmetric] strings_HasSuffix_def)
  have s3: "\<not> suffix ''-thinking'' ''gpt-5.1-codex-max''"
    by (simp add: strings_HasSuffix_iff [symmetric] strings_HasSuffix_def)
  have r2: "?reg (''claude-opus-4-5'' @ ''-thinking'') \<noteq> None" by simp
  have r3: "?reg (''gpt-5.1-codex-max'' @ ''-thinking'') = None" by simp
  from getThinkingVariant_cases [of "''claude-opus-4-5-thinking''" ?reg] s1
  have a: "getThinkingVariant ?reg ''claude-opus-4-5-thinking'' = ''claude-opus-4-5-thinking''"
    by blast
  from getThinkingVariant_cases [of "''claude-opus-4-5''" ?reg] s2 r2
  have b: "getThinkingVariant ?reg ''claude-opus-4-5'' = ''claude-opus-4-5'' @ ''-thinking''"
    by blast
  from getThinkingVariant_cases [of "''gpt-5.1-codex-max''" ?reg] s3 r3
  have c: "getThinkingVariant ?reg ''gpt-5.1-codex-max'' = ''''"
    by blast
  from a b c show ?thesis by simp
qed

text \<open>
  C6. The limit of a model the registry does not know is 0. For a known model it is the
  registered \<open>OutputTokenLimit\<close> when that is positive and the registered
  \<open>MaxCompletionTokens\<close> otherwise, hence 0 when neither field is set.
\<close>

theorem getOutputTokenLimit_cases:
  "(GetModelInfo m = None \<longrightarrow> getOutputTokenLimit GetModelInfo m = 0)
   \<and> (\<forall>info. GetModelInfo m = Some info \<and> 0 < OutputTokenLimit info
        \<longrightarrow> getOutputTokenLimit GetModelInfo m = OutputTokenLimit info)
   \<and> (\<forall>info. GetModelInfo m = Some info \<and> \<not> 0 < OutputTokenLimit info
        \<longrightarrow> getOutputTokenLimit GetModelInfo m = MaxCompletionTokens info)
   \<and> (\<forall>info. GetModelInfo m = Some info \<and> OutputTokenLimit info = 0
          \<and> MaxCompletionTokens info = 0
        \<longrightarrow> getOutputTokenLimit GetModelInfo m = 0)"
  by (simp add: getOutputTokenLimit_def)

theorem getOutputTokenLimit_cases_witness:
  "getOutputTokenLimit
     [''a'' \<mapsto> \<lparr>Thinking = None :: unit option, OutputTokenLimit = 65536, MaxCompletionTokens = 4096\<rparr>,
      ''b'' \<mapsto> \<lparr>Thinking = None, OutputTokenLimit = 0, MaxCompletionTokens = 4096\<rparr>,
      ''c'' \<mapsto> \<lparr>Thinking = None, OutputTokenLimit = 0, MaxCompletionTokens = 0\<rparr>] ''a'' = 65536
   \<and> getOutputTokenLimit
     [''a'' \<mapsto> \<lparr>Thinking = None :: unit option, OutputTokenLimit = 65536, MaxCompletionTokens = 4096\<rparr>,
      ''b'' \<mapsto> \<lparr>Thinking = None, OutputTokenLimit = 0, MaxCompletionTokens = 4096\<rparr>,
      ''c'' \<mapsto> \<lparr>Thinking = None, OutputTokenLimit = 0, MaxCompletionTokens = 0\<rparr>] ''b'' = 4096
   \<and> getOutputTokenLimit
     [''a'' \<mapsto> \<lparr>Thinking = None :: unit option, OutputTokenLimit = 65536, MaxCompletionTokens = 4096\<rparr>,
      ''b'' \<mapsto> \<lparr>Thinking = None, OutputTokenLimit = 0, MaxCompletionTokens = 4096\<rparr>,
      ''c'' \<mapsto> \<lparr>Thinking = None, OutputTokenLimit = 0, MaxCompletionTokens = 0\<rparr>] ''c'' = 0
   \<and> getOutputTokenLimit
     [''a'' \<mapsto> \<lparr>Thinking = None :: unit option, OutputTokenLimit = 65536, MaxCompletionTokens = 4096\<rparr>,
      ''b'' \<mapsto> \<lparr>Thinking = None, OutputTokenLimit = 0, MaxCompletionTokens = 4096\<rparr>,
      ''c'' \<mapsto> \<lparr>Thinking = None, OutputTokenLimit = 0, MaxCompletionTokens = 0\<rparr>] ''d'' = 0"
proof -
  let ?reg = "[''a'' \<mapsto> \<lparr>Thinking = None :: unit option, OutputTokenLimit = 65536, MaxCompletionTokens = 4096\<rparr>,
      ''b'' \<mapsto> \<lparr>Thinking = None, OutputTokenLimit = 0, MaxCompletionTokens = 4096\<rparr>,
      ''c'' \<mapsto> \<lparr>Thinking = None, OutputTokenLimit = 0, MaxCompletionTokens = 0\<rparr>]"
  have a: "getOutputTokenLimit ?reg ''a'' = 65536"
    using getOutputTokenLimit_cases [of ?reg "''a''"] by simp
  have b: "getOutputTokenLimit ?reg ''b'' = 4096"
    using getOutputTokenLimit_cases [of ?reg "''b''"] by simp
  have c: "getOutputTokenLimit ?reg ''c'' = 0"
    using getOutputTokenLimit_cases [of ?reg "''c''"] by simp
  have d: "getOutputTokenLimit ?reg ''d'' = 0"
    using getOutputTokenLimit_cases [of ?reg "''d''"] by simp
  from a b c d show ?thesis by simp
qed

text \<open>
  C10. Both predicates test the lower-cased id for a substring, \<open>claude\<close> for one and
  \<open>gemini\<close> for the other, and a model id of the family table satisfies both:
  \<open>gemini-claude-sonnet-4-5\<close>, which the \<open>claude-sonnet-4-5\<close> family binds to the
  antigravity provider. The id is ASCII, so this holds whatever the Unicode path of
  \<open>ToLower\<close> does.
\<close>

theorem model_kinds_overlap:
  "isClaudeModel unicode_lower model = sublist ''claude'' (strings_ToLower unicode_lower model)
   \<and> isGeminiModel unicode_lower model = sublist ''gemini'' (strings_ToLower unicode_lower model)
   \<and> isClaudeModel unicode_lower ''gemini-claude-sonnet-4-5''
   \<and> isGeminiModel unicode_lower ''gemini-claude-sonnet-4-5''
   \<and> ModelFamilies ''claude-sonnet-4-5''
       = Some [member ''kiro'' ''claude-sonnet-4-5'',
               member ''antigravity'' ''gemini-claude-sonnet-4-5'',
               member ''claude'' ''claude-sonnet-4-5-20250929'']"
proof -
  have c: "isClaudeModel unicode_lower model
             = sublist ''claude'' (strings_ToLower unicode_lower model)"
    by (simp add: isClaudeModel_def strings_Contains_iff)
  have "prefix ''gemini'' s \<Longrightarrow> sublist ''gemini'' s" for s :: string
    by (rule prefix_imp_sublist)
  then have g: "isGeminiModel unicode_lower model
                  = sublist ''gemini'' (strings_ToLower unicode_lower model)"
    by (auto simp add: isGeminiModel_def Let_def strings_Contains_iff strings_HasPrefix_iff)
  have low: "strings_ToLower unicode_lower ''gemini-claude-sonnet-4-5'' = ''gemini-claude-sonnet-4-5''"
    by (simp add: strings_ToLower_def lower_byte_def)
  have both: "isClaudeModel unicode_lower ''gemini-claude-sonnet-4-5''
              \<and> isGeminiModel unicode_lower ''gemini-claude-sonnet-4-5''"
    by (simp add: isClaudeModel_def isGeminiModel_def low strings_HasPrefix_def)
  have fam: "ModelFamilies ''claude-sonnet-4-5''
       = Some [member ''kiro'' ''claude-sonnet-4-5'',
               member ''antigravity'' ''gemini-claude-sonnet-4-5'',
               member ''claude'' ''claude-sonnet-4-5-20250929'']"
    by (simp add: ModelFamilies_def ModelFamilies_table_def)
  from c g both fam show ?thesis by simp
qed

theorem model_kinds_overlap_witness:
  "isClaudeModel (\<lambda>s. s) ''Gemini-Claude-Sonnet-4-5'' = sublist ''claude'' ''gemini-claude-sonnet-4-5''
   \<and> isGeminiModel (\<lambda>s. s) ''gpt-5.1-codex-max'' = sublist ''gemini'' ''gpt-5.1-codex-max''
   \<and> isClaudeModel (\<lambda>s. s) ''gemini-claude-sonnet-4-5''
   \<and> isGeminiModel (\<lambda>s. s) ''gemini-claude-sonnet-4-5''"
proof -
  have l1: "strings_ToLower (\<lambda>s. s) ''Gemini-Claude-Sonnet-4-5'' = ''gemini-claude-sonnet-4-5''"
    by code_simp
  have l2: "strings_ToLower (\<lambda>s. s) ''gpt-5.1-codex-max'' = ''gpt-5.1-codex-max''"
    by code_simp
  from model_kinds_overlap [of "\<lambda>s. s" "''Gemini-Claude-Sonnet-4-5''"]
    model_kinds_overlap [of "\<lambda>s. s" "''gpt-5.1-codex-max''"] l1 l2
  show ?thesis by simp
qed

section \<open>Starting an OAuth flow\<close>

lemma normalize_provider_iflow: "normalize_provider p = ''iflow'' \<longleftrightarrow> p = ''iflow''"
  by (simp add: normalize_provider_def)

lemma normalize_provider_qwen: "normalize_provider p = ''qwen'' \<longleftrightarrow> p = ''qwen''"
  by (simp add: normalize_provider_def)

lemma buildProviderAuthURL_state:
  assumes "buildProviderAuthURL env provider projectID = Inr (authURL, state, codeVerifier)"
  shows "GenerateRandomState env = Inr state"
  using assms
  by (auto simp add: buildProviderAuthURL_def buildClaudeAuthURL_def buildCodexAuthURL_def
      buildGeminiAuthURL_def buildAntigravityAuthURL_def Let_def
      split: sum.splits if_splits)

lemma registered_states_forwarder:
  "registered_states
     (case target of
        None \<Rightarrow> []
      | Some targetURL \<Rightarrow>
          (let port = p in if port > 0 then [StartCallbackForwarder port provider targetURL] else []))
   = []"
  by (simp add: Let_def split: option.splits)

text \<open>What a call for a provider that is neither qwen nor copilot registers.\<close>

lemma OAuthStart_webui_states:
  assumes "normalize_provider (Provider_req req) \<noteq> ''qwen''"
    and "normalize_provider (Provider_req req) \<noteq> ''copilot''"
  shows "\<exists>response effects. OAuthStart env (Some req) = Inr (response, effects)
           \<and> registered_states effects =
               (if normalize_provider (Provider_req req) = ''iflow'' then []
                else (case buildProviderAuthURL env (normalize_provider (Provider_req req))
                             (ProjectID_req req) of
                        Inl err \<Rightarrow> []
                      | Inr (authURL, state, codeVerifier) \<Rightarrow> [state]))"
  using assms
  by (simp add: OAuthStart_def Let_def registered_states_forwarder split: sum.splits)

lemma webui_keyed_by_random_state:
  assumes "normalize_provider (Provider_req req) \<noteq> ''qwen''"
    and "normalize_provider (Provider_req req) \<noteq> ''copilot''"
  shows "keyed_by_random_state env (Some req)"
proof -
  from OAuthStart_webui_states [OF assms, of env] obtain response effects where
    run: "OAuthStart env (Some req) = Inr (response, effects)"
    and st: "registered_states effects =
               (if normalize_provider (Provider_req req) = ''iflow'' then []
                else (case buildProviderAuthURL env (normalize_provider (Provider_req req))
                             (ProjectID_req req) of
                        Inl err \<Rightarrow> []
                      | Inr (authURL, state, codeVerifier) \<Rightarrow> [state]))"
    by blast
  have "list_all (\<lambda>state. GenerateRandomState env = Inr state) (registered_states effects)"
    unfolding st
    by (auto split: sum.splits dest: buildProviderAuthURL_state)
  with run show ?thesis by (simp add: keyed_by_random_state_def)
qed

lemma qwen_states:
  assumes "normalize_provider (Provider_req req) = ''qwen''"
    and "qwen_InitiateDeviceFlow env = Inr deviceFlow"
  shows "OAuthStart env (Some req) =
           Inr ((200,
                 zero_response
                   \<lparr>Status := ''ok'',
                    FlowType := ''device'',
                    State := ''qwen-'' @ dec_int (sint (time_Now_UnixNano env)),
                    ID := ''qwen-'' @ dec_int (sint (time_Now_UnixNano env)),
                    UserCode := UserCode_qwen deviceFlow,
                    AuthURL := VerificationURIComplete_qwen deviceFlow,
                    VerificationURL := VerificationURI_qwen deviceFlow,
                    ExpiresIn := ExpiresIn_qwen deviceFlow,
                    Interval := Interval_qwen deviceFlow\<rparr>),
                [Registry_Create (''qwen-'' @ dec_int (sint (time_Now_UnixNano env))) ''qwen'' ModeWebUI,
                 Go_pollQwenToken deviceFlow (''qwen-'' @ dec_int (sint (time_Now_UnixNano env)))])"
  using assms by (simp add: OAuthStart_def startQwenDeviceFlow_def Let_def StatusOK_def)

lemma copilot_states:
  assumes "normalize_provider (Provider_req req) = ''copilot''"
    and "copilot_StartDeviceFlow env = Inr deviceCode"
    and "8 \<le> length (DeviceCode_copilot deviceCode)"
  shows "\<exists>response. OAuthStart env (Some req) =
           Inr (response,
                [Registry_Create (''copilot-'' @ take 8 (DeviceCode_copilot deviceCode)) ''copilot'' ModeWebUI,
                 Go_pollCopilotToken deviceCode (''copilot-'' @ take 8 (DeviceCode_copilot deviceCode))])"
  using assms by (simp add: OAuthStart_def startCopilotDeviceFlow_def Let_def)

text \<open>A device flow whose upstream call fails registers nothing.\<close>

lemma device_flow_failure_registers_nothing:
  assumes "normalize_provider (Provider_req req) = ''qwen'' \<and> qwen_InitiateDeviceFlow env = Inl err
           \<or> normalize_provider (Provider_req req) = ''copilot''
             \<and> copilot_StartDeviceFlow env = Inl err"
  shows "\<exists>response effects. OAuthStart env (Some req) = Inr (response, effects)
           \<and> registered_states effects = []"
  using assms
  by (auto simp add: OAuthStart_def startQwenDeviceFlow_def startCopilotDeviceFlow_def Let_def)

text \<open>
  C7, as the code has it. A flow registered for a provider that is neither qwen nor copilot
  is keyed by the state the random-state generator returned, and such a flow is registered
  whenever the provider's URL builder succeeds. The device flows are keyed otherwise: a qwen
  flow by \<open>qwen-\<close> and the clock's nanoseconds in decimal, a copilot flow by \<open>copilot-\<close> and
  the first eight bytes of the device code the upstream sent.
\<close>

theorem OAuthStart_state_keys:
  "(normalize_provider (Provider_req req) \<noteq> ''qwen''
      \<and> normalize_provider (Provider_req req) \<noteq> ''copilot''
      \<longrightarrow> keyed_by_random_state env (Some req)
          \<and> (\<forall>authURL state codeVerifier.
                normalize_provider (Provider_req req) \<noteq> ''iflow''
                \<and> buildProviderAuthURL env (normalize_provider (Provider_req req)) (ProjectID_req req)
                    = Inr (authURL, state, codeVerifier)
                \<longrightarrow> (case OAuthStart env (Some req) of
                       Inl panic \<Rightarrow> False
                     | Inr (response, effects) \<Rightarrow>
                         registered_states effects = [state] \<and> GenerateRandomState env = Inr state)))
   \<and> (\<forall>deviceFlow.
        normalize_provider (Provider_req req) = ''qwen''
        \<and> qwen_InitiateDeviceFlow env = Inr deviceFlow
        \<longrightarrow> (case OAuthStart env (Some req) of
               Inl panic \<Rightarrow> False
             | Inr (response, effects) \<Rightarrow>
                 registered_states effects = [''qwen-'' @ dec_int (sint (time_Now_UnixNano env))]))
   \<and> (\<forall>deviceCode.
        normalize_provider (Provider_req req) = ''copilot''
        \<and> copilot_StartDeviceFlow env = Inr deviceCode
        \<and> 8 \<le> length (DeviceCode_copilot deviceCode)
        \<longrightarrow> (case OAuthStart env (Some req) of
               Inl panic \<Rightarrow> False
             | Inr (response, effects) \<Rightarrow>
                 registered_states effects = [''copilot-'' @ take 8 (DeviceCode_copilot deviceCode)]))"
proof -
  have web: "keyed_by_random_state env (Some req)
          \<and> (\<forall>authURL state codeVerifier.
                normalize_provider (Provider_req req) \<noteq> ''iflow''
                \<and> buildProviderAuthURL env (normalize_provider (Provider_req req)) (ProjectID_req req)
                    = Inr (authURL, state, codeVerifier)
                \<longrightarrow> (case OAuthStart env (Some req) of
                       Inl panic \<Rightarrow> False
                     | Inr (response, effects) \<Rightarrow>
                         registered_states effects = [state] \<and> GenerateRandomState env = Inr state))"
    if nq: "normalize_provider (Provider_req req) \<noteq> ''qwen''"
      and nc: "normalize_provider (Provider_req req) \<noteq> ''copilot''"
  proof -
    from OAuthStart_webui_states [OF nq nc, of env] obtain response effects where
      run: "OAuthStart env (Some req) = Inr (response, effects)"
      and st: "registered_states effects =
               (if normalize_provider (Provider_req req) = ''iflow'' then []
                else (case buildProviderAuthURL env (normalize_provider (Provider_req req))
                             (ProjectID_req req) of
                        Inl err \<Rightarrow> []
                      | Inr (authURL, state, codeVerifier) \<Rightarrow> [state]))"
      by blast
    show ?thesis
      using webui_keyed_by_random_state [OF nq nc, of env] run st
      by (auto dest: buildProviderAuthURL_state)
  qed
  have qwen: "(case OAuthStart env (Some req) of
               Inl panic \<Rightarrow> False
             | Inr (response, effects) \<Rightarrow>
                 registered_states effects = [''qwen-'' @ dec_int (sint (time_Now_UnixNano env))])"
    if "normalize_provider (Provider_req req) = ''qwen''"
      and "qwen_InitiateDeviceFlow env = Inr deviceFlow" for deviceFlow
    using qwen_states [OF that] by simp
  have copilot: "(case OAuthStart env (Some req) of
               Inl panic \<Rightarrow> False
             | Inr (response, effects) \<Rightarrow>
                 registered_states effects = [''copilot-'' @ take 8 (DeviceCode_copilot deviceCode)])"
    if "normalize_provider (Provider_req req) = ''copilot''"
      and "copilot_StartDeviceFlow env = Inr deviceCode"
      and "8 \<le> length (DeviceCode_copilot deviceCode)" for deviceCode
    using copilot_states [OF that] by auto
  from web qwen copilot show ?thesis by blast
qed

lemmas sample_run =
  OAuthStart_def start_request_def normalize_provider_def startQwenDeviceFlow_def
  startCopilotDeviceFlow_def buildProviderAuthURL_def buildClaudeAuthURL_def sample_env_def
  dec_int_def digit_char_def zero_response_def StatusOK_def Let_def

theorem OAuthStart_state_keys_witness:
  "keyed_by_random_state sample_env (start_request ''anthropic'')
   \<and> (case OAuthStart sample_env (start_request ''anthropic'') of
        Inl panic \<Rightarrow> False
      | Inr (response, effects) \<Rightarrow>
          registered_states effects = [''9f86d081884c7d659a2feaa0c55ad015''])
   \<and> (case OAuthStart sample_env (start_request ''qwen'') of
        Inl panic \<Rightarrow> False
      | Inr (response, effects) \<Rightarrow> registered_states effects = [''qwen-1730000000000000000''])
   \<and> (case OAuthStart sample_env (start_request ''github-copilot'') of
        Inl panic \<Rightarrow> False
      | Inr (response, effects) \<Rightarrow> registered_states effects = [''copilot-3584d835''])"
proof -
  let ?claude = "\<lparr>Provider_req = ''anthropic'', ProjectID_req = ''''\<rparr>"
  let ?qwen = "\<lparr>Provider_req = ''qwen'', ProjectID_req = ''''\<rparr>"
  let ?copilot = "\<lparr>Provider_req = ''github-copilot'', ProjectID_req = ''''\<rparr>"
  have n1: "normalize_provider ''anthropic'' = ''claude''"
    and n2: "normalize_provider ''qwen'' = ''qwen''"
    and n3: "normalize_provider ''github-copilot'' = ''copilot''"
    by (simp_all add: normalize_provider_def)
  have url: "buildProviderAuthURL sample_env ''claude'' ''''
      = Inr (''https://claude.example/authorize?state=9f86d081884c7d659a2feaa0c55ad015'',
             ''9f86d081884c7d659a2feaa0c55ad015'', ''verifier-1'')"
    by (simp add: buildProviderAuthURL_def buildClaudeAuthURL_def sample_env_def)
  have df: "qwen_InitiateDeviceFlow sample_env =
      Inr \<lparr>DeviceCode_qwen = ''qwen-device-code'',
           UserCode_qwen = ''ABCD-EFGH'',
           VerificationURI_qwen = ''https://qwen.example/device'',
           VerificationURIComplete_qwen = ''https://qwen.example/device?user_code=ABCD-EFGH'',
           ExpiresIn_qwen = 600,
           Interval_qwen = 5,
           CodeVerifier_qwen = ''verifier-3''\<rparr>"
    by (simp add: sample_env_def)
  have now: "''qwen-'' @ dec_int (sint (time_Now_UnixNano sample_env)) = ''qwen-1730000000000000000''"
    by (simp add: sample_env_def dec_int_def digit_char_def)
  let ?dc = "\<lparr>DeviceCode_copilot = ''3584d83530557fdd1f46af8289938c8ef79f9dc5'',
           UserCode_copilot = ''WDJB-MJHT'',
           VerificationURI_copilot = ''https://github.example/login/device'',
           ExpiresIn_copilot = 900,
           Interval_copilot = 5\<rparr>"
  have dc: "copilot_StartDeviceFlow sample_env = Inr ?dc"
    by (simp add: sample_env_def)
  have web: "keyed_by_random_state sample_env (Some ?claude)
      \<and> (\<forall>authURL state codeVerifier.
            buildProviderAuthURL sample_env ''claude'' '''' = Inr (authURL, state, codeVerifier)
            \<longrightarrow> (case OAuthStart sample_env (Some ?claude) of
                   Inl panic \<Rightarrow> False
                 | Inr (response, effects) \<Rightarrow>
                     registered_states effects = [state]
                     \<and> GenerateRandomState sample_env = Inr state))"
    using OAuthStart_state_keys [of ?claude sample_env] by (simp add: n1)
  with url have a: "keyed_by_random_state sample_env (Some ?claude)
      \<and> (case OAuthStart sample_env (Some ?claude) of
           Inl panic \<Rightarrow> False
         | Inr (response, effects) \<Rightarrow>
             registered_states effects = [''9f86d081884c7d659a2feaa0c55ad015''])"
    by (auto split: sum.splits)
  have "\<forall>deviceFlow. qwen_InitiateDeviceFlow sample_env = Inr deviceFlow
      \<longrightarrow> (case OAuthStart sample_env (Some ?qwen) of
        Inl panic \<Rightarrow> False
      | Inr (response, effects) \<Rightarrow>
          registered_states effects = [''qwen-'' @ dec_int (sint (time_Now_UnixNano sample_env))])"
    using OAuthStart_state_keys [of ?qwen sample_env] by (simp add: n2)
  with df have "(case OAuthStart sample_env (Some ?qwen) of
        Inl panic \<Rightarrow> False
      | Inr (response, effects) \<Rightarrow>
          registered_states effects = [''qwen-'' @ dec_int (sint (time_Now_UnixNano sample_env))])"
    by blast
  then have b: "(case OAuthStart sample_env (Some ?qwen) of
        Inl panic \<Rightarrow> False
      | Inr (response, effects) \<Rightarrow> registered_states effects = [''qwen-1730000000000000000''])"
    by (simp only: now)
  have "\<forall>deviceCode. copilot_StartDeviceFlow sample_env = Inr deviceCode
        \<and> 8 \<le> length (DeviceCode_copilot deviceCode)
      \<longrightarrow> (case OAuthStart sample_env (Some ?copilot) of
        Inl panic \<Rightarrow> False
      | Inr (response, effects) \<Rightarrow>
          registered_states effects = [''copilot-'' @ take 8 (DeviceCode_copilot deviceCode)])"
    using OAuthStart_state_keys [of ?copilot sample_env] by (simp add: n3)
  then have "copilot_StartDeviceFlow sample_env = Inr ?dc \<and> 8 \<le> length (DeviceCode_copilot ?dc)
      \<longrightarrow> (case OAuthStart sample_env (Some ?copilot) of
        Inl panic \<Rightarrow> False
      | Inr (response, effects) \<Rightarrow>
          registered_states effects = [''copilot-'' @ take 8 (DeviceCode_copilot ?dc)])"
    by (rule spec)
  moreover have "8 \<le> length (DeviceCode_copilot ?dc)" by simp
  ultimately have "(case OAuthStart sample_env (Some ?copilot) of
        Inl panic \<Rightarrow> False
      | Inr (response, effects) \<Rightarrow>
          registered_states effects = [''copilot-'' @ take 8 (DeviceCode_copilot ?dc)])"
    using dc by blast
  moreover have "''copilot-'' @ take 8 (DeviceCode_copilot ?dc) = ''copilot-3584d835''"
    by simp
  ultimately have c: "(case OAuthStart sample_env (Some ?copilot) of
        Inl panic \<Rightarrow> False
      | Inr (response, effects) \<Rightarrow> registered_states effects = [''copilot-3584d835''])"
    by (simp only:)
  from a b c show ?thesis by (simp add: start_request_def)
qed

text \<open>
  The state rule read for every flow fails on the device flows: with the generator ready to
  return \<open>9f86d081884c7d659a2feaa0c55ad015\<close>, a qwen start at clock reading
  1730000000000000000 registers its flow under \<open>qwen-1730000000000000000\<close>, and a copilot
  start under \<open>copilot-3584d835\<close>, sixteen bytes cut from the upstream's device code.
\<close>

theorem device_flow_state_counterexample:
  "GenerateRandomState sample_env = Inr ''9f86d081884c7d659a2feaa0c55ad015''
   \<and> (case OAuthStart sample_env (start_request ''qwen'') of
        Inl panic \<Rightarrow> False
      | Inr (response, effects) \<Rightarrow> registered_states effects = [''qwen-1730000000000000000''])
   \<and> \<not> keyed_by_random_state sample_env (start_request ''qwen'')
   \<and> (case OAuthStart sample_env (start_request ''copilot'') of
        Inl panic \<Rightarrow> False
      | Inr (response, effects) \<Rightarrow> registered_states effects = [''copilot-3584d835''])
   \<and> \<not> keyed_by_random_state sample_env (start_request ''copilot'')"
  by (simp add: keyed_by_random_state_def sample_run)

text \<open>
  C8. A start request whose provider is \<open>iflow\<close> is answered with status 400 and an error
  that names \<open>POST /v0/management/iflow-auth-url\<close>; the handler calls nothing else, so no
  flow is registered.
\<close>

theorem OAuthStart_iflow_rejected:
  assumes "normalize_provider (Provider_req req) = ''iflow''"
  shows "(case OAuthStart env (Some req) of
            Inl panic \<Rightarrow> False
          | Inr ((code, body), effects) \<Rightarrow>
              code = 400 \<and> Status body = ''error''
              \<and> sublist ''POST /v0/management/iflow-auth-url'' (Error body)
              \<and> body = error_response iflow_message
              \<and> effects = [] \<and> registered_states effects = [])"
proof -
  have run: "OAuthStart env (Some req) = Inr ((400, error_response iflow_message), [])"
    using assms by (simp add: OAuthStart_def Let_def StatusBadRequest_def)
  have "strings_Contains iflow_message ''POST /v0/management/iflow-auth-url''"
    by (simp add: iflow_message_def strings_HasPrefix_def)
  then have "sublist ''POST /v0/management/iflow-auth-url'' (Error (error_response iflow_message))"
    by (simp add: strings_Contains_iff error_response_def)
  with run show ?thesis by (simp add: error_response_def)
qed

theorem OAuthStart_iflow_rejected_witness:
  "(case OAuthStart sample_env (start_request ''iflow'') of
      Inl panic \<Rightarrow> False
    | Inr ((code, body), effects) \<Rightarrow>
        code = 400 \<and> Status body = ''error'' \<and> effects = []
        \<and> Error body = ''iFlow uses cookie-based auth. Use POST /v0/management/iflow-auth-url with {cookie: ''
             @ [CHR 0x22] @ ''...'' @ [CHR 0x22] @ ''} instead'')"
proof -
  have "normalize_provider (Provider_req \<lparr>Provider_req = ''iflow'', ProjectID_req = ''''\<rparr>) = ''iflow''"
    by (simp add: normalize_provider_def)
  from OAuthStart_iflow_rejected [OF this, of sample_env] show ?thesis
    by (auto simp add: start_request_def error_response_def iflow_message_def split: sum.splits)
qed

text \<open>
  C9. When the upstream device authorization succeeds, a start request for \<open>qwen\<close> is
  answered with status 200 and a body with \<open>flow_type\<close> \<open>device\<close> and the upstream's user
  code, verification URL, expiry and polling interval; the state in the body is the one the
  flow has just been registered under, and the one the polling task is started with.
\<close>

theorem OAuthStart_qwen_device:
  assumes "normalize_provider (Provider_req req) = ''qwen''"
    and "qwen_InitiateDeviceFlow env = Inr deviceFlow"
  shows "(case OAuthStart env (Some req) of
            Inl panic \<Rightarrow> False
          | Inr ((code, body), effects) \<Rightarrow>
              code = 200 \<and> Status body = ''ok'' \<and> FlowType body = ''device''
              \<and> UserCode body = UserCode_qwen deviceFlow
              \<and> VerificationURL body = VerificationURI_qwen deviceFlow
              \<and> ExpiresIn body = ExpiresIn_qwen deviceFlow
              \<and> Interval body = Interval_qwen deviceFlow
              \<and> ID body = State body
              \<and> effects = [Registry_Create (State body) ''qwen'' ModeWebUI,
                           Go_pollQwenToken deviceFlow (State body)]
              \<and> registered_states effects = [State body])"
  using qwen_states [OF assms] by (simp add: zero_response_def)

theorem OAuthStart_qwen_device_witness:
  "(case OAuthStart sample_env (start_request ''qwen'') of
      Inl panic \<Rightarrow> False
    | Inr ((code, body), effects) \<Rightarrow>
        code = 200 \<and> FlowType body = ''device'' \<and> UserCode body = ''ABCD-EFGH''
        \<and> VerificationURL body = ''https://qwen.example/device''
        \<and> ExpiresIn body = 600 \<and> Interval body = 5
        \<and> registered_states effects = [State body])"
proof -
  let ?qwen = "\<lparr>Provider_req = ''qwen'', ProjectID_req = ''''\<rparr>"
  have n: "normalize_provider (Provider_req ?qwen) = ''qwen''"
    by (simp add: normalize_provider_def)
  have df: "qwen_InitiateDeviceFlow sample_env =
      Inr \<lparr>DeviceCode_qwen = ''qwen-device-code'',
           UserCode_qwen = ''ABCD-EFGH'',
           VerificationURI_qwen = ''https://qwen.example/device'',
           VerificationURIComplete_qwen = ''https://qwen.example/device?user_code=ABCD-EFGH'',
           ExpiresIn_qwen = 600,
           Interval_qwen = 5,
           CodeVerifier_qwen = ''verifier-3''\<rparr>"
    by (simp add: sample_env_def)
  from OAuthStart_qwen_device [OF n df] show ?thesis
    by (auto simp add: start_request_def split: sum.splits)
qed

end
